theory Spec2Isabelle
  imports Complex_Main
begin

section \<open>Python values\<close>

text \<open>
  The module \<^verbatim>\<open>modules/whisper/data_classes.py\<close> declares four pydantic parameter
  records, one aggregate of them, and for each record a classmethod that builds a list of
  gradio form widgets. The values that flow through it are booleans, integers, floats,
  strings, \<^verbatim>\<open>None\<close>, lists of choices, members of the enum \<^verbatim>\<open>WhisperImpl\<close>
  and strings marked for translation by \<^verbatim>\<open>_(...)\<close>.
\<close>

datatype WhisperImpl = WHISPER | FASTER_WHISPER | INSANELY_FAST_WHISPER

text \<open>
  A Python float that is not NaN is a rational number or one of the two infinities, and
  the order on these is all the range bounds of the records look at. NaN is not
  represented.
\<close>

datatype pyfloat = NegInf | Finite rat | PosInf

fun float_le :: "pyfloat \<Rightarrow> pyfloat \<Rightarrow> bool" where
  "float_le NegInf y = True"
| "float_le (Finite a) (Finite b) = (a \<le> b)"
| "float_le x PosInf = True"
| "float_le x y = False"

definition int_le :: "int \<Rightarrow> int \<Rightarrow> bool" where
  "int_le a b = (a \<le> b)"

datatype pyval =
    PNone
  | PBool bool
  | PInt int
  | PFloat pyfloat
  | PStr string
  | PTr string
  | PEnum WhisperImpl
  | PList "pyval list"

text \<open>\<^verbatim>\<open>_("...")\<close>: a string handed to the translation layer.\<close>

definition gettext :: "string \<Rightarrow> pyval" where
  "gettext s = PTr s"

type_synonym pydict = "string \<rightharpoonup> pyval"

text \<open>\<^verbatim>\<open>d.get(k, fallback)\<close>\<close>

definition dict_get :: "pydict \<Rightarrow> string \<Rightarrow> pyval \<Rightarrow> pyval" where
  "dict_get d k fallback = (case d k of Some v \<Rightarrow> v | None \<Rightarrow> fallback)"

text \<open>The dictionary literal \<^verbatim>\<open>{k1: v1, ..., kn: vn}\<close>.\<close>

definition dict_of :: "(string \<times> pyval) list \<Rightarrow> pydict" where
  "dict_of kvs = map_of (rev kvs)"

section \<open>Errors\<close>

datatype bound_error = greater_than_equal | less_than_equal | greater_than

text \<open>
  A pydantic \<^verbatim>\<open>ValidationError\<close> lists every field that failed, in declaration order.
  \<^verbatim>\<open>AttributeError\<close> is what a failed attribute access on a class raises.
\<close>

datatype error =
    ValidationError "(string \<times> bound_error) list"
  | AttributeError string

section \<open>Field declarations\<close>

text \<open>The bounds a \<^verbatim>\<open>Field(...)\<close> can carry: \<^verbatim>\<open>ge=\<close>, \<^verbatim>\<open>le=\<close>, \<^verbatim>\<open>gt=\<close>.\<close>

datatype 'a bound = Ge 'a | Le 'a | Gt 'a

fun violation :: "('a \<Rightarrow> 'a \<Rightarrow> bool) \<Rightarrow> 'a \<Rightarrow> 'a bound \<Rightarrow> bound_error list" where
  "violation leq v (Ge b) = (if leq b v then [] else [greater_than_equal])"
| "violation leq v (Le b) = (if leq v b then [] else [less_than_equal])"
| "violation leq v (Gt b) = (if leq v b then [greater_than] else [])"

text \<open>
  Validation of one keyword argument: a field that is not supplied takes its default
  unchecked; a supplied value is checked against every bound of the field.
\<close>

definition check :: "('a \<Rightarrow> 'a \<Rightarrow> bool) \<Rightarrow> string \<Rightarrow> 'a bound list \<Rightarrow> 'a option
    \<Rightarrow> (string \<times> bound_error) list" where
  "check leq name bounds supplied =
     (case supplied of
        None \<Rightarrow> []
      | Some v \<Rightarrow> map (Pair name) (concat (map (violation leq v) bounds)))"

definition check_float :: "string \<Rightarrow> pyfloat bound list \<Rightarrow> pyfloat option
    \<Rightarrow> (string \<times> bound_error) list" where
  "check_float = check float_le"

definition check_int :: "string \<Rightarrow> int bound list \<Rightarrow> int option
    \<Rightarrow> (string \<times> bound_error) list" where
  "check_int = check int_le"

definition supplied_or :: "'a option \<Rightarrow> 'a \<Rightarrow> 'a" where
  "supplied_or supplied dflt = (case supplied of None \<Rightarrow> dflt | Some v \<Rightarrow> v)"

definition finish :: "(string \<times> bound_error) list \<Rightarrow> 'r \<Rightarrow> error + 'r" where
  "finish errors r = (if errors = [] then Inr r else Inl (ValidationError errors))"

text \<open>Optional values in a dumped record.\<close>

definition opt_str :: "string option \<Rightarrow> pyval" where
  "opt_str s = (case s of None \<Rightarrow> PNone | Some x \<Rightarrow> PStr x)"

definition opt_int :: "int option \<Rightarrow> pyval" where
  "opt_int s = (case s of None \<Rightarrow> PNone | Some x \<Rightarrow> PInt x)"

definition opt_float :: "pyfloat option \<Rightarrow> pyval" where
  "opt_float s = (case s of None \<Rightarrow> PNone | Some x \<Rightarrow> PFloat x)"

section \<open>Widgets\<close>

datatype component = Checkbox | Slider | Number | Textbox | Dropdown

text \<open>
  A widget is the gradio constructor that was called and its keyword arguments, in the
  order of the call.
\<close>

record widget =
  component :: component
  kwargs :: "(string \<times> pyval) list"

text \<open>
  Evaluation is left to right and stops at the first exception: in a list display, and
  in the keyword arguments of a call.
\<close>

fun collect :: "(error + 'a) list \<Rightarrow> error + 'a list" where
  "collect [] = Inr []"
| "collect (x # xs) =
     (case x of
        Inl e \<Rightarrow> Inl e
      | Inr v \<Rightarrow> (case collect xs of Inl e \<Rightarrow> Inl e | Inr vs \<Rightarrow> Inr (v # vs)))"

definition gr :: "component \<Rightarrow> (string \<times> (error + pyval)) list \<Rightarrow> error + widget" where
  "gr c kws =
     (case collect (map snd kws) of
        Inl e \<Rightarrow> Inl e
      | Inr vs \<Rightarrow> Inr \<lparr>component = c, kwargs = zip (map fst kws) vs\<rparr>)"

text \<open>
  The attributes a class object answers to. The classmethods read \<^verbatim>\<open>cls.<field>\<close>, and
  the class bound to \<^verbatim>\<open>cls\<close> is built by the metaclass of pydantic. The module imports
  \<^verbatim>\<open>field_validator\<close>, which pydantic has from version 2 on; there the metaclass takes
  every name declared as a field out of the namespace of the class, so that the class
  answers to no field name and \<^verbatim>\<open>cls.<field>\<close> raises \<^verbatim>\<open>AttributeError\<close>. The
  rendering functions take the class as an argument. \<open>model_class\<close> is a model class as
  far as this module looks at it: it answers to its name and to no field.
\<close>

type_synonym pyclass = "string \<rightharpoonup> pyval"

definition getattr :: "pyclass \<Rightarrow> string \<Rightarrow> error + pyval" where
  "getattr cls name = (case cls name of None \<Rightarrow> Inl (AttributeError name) | Some v \<Rightarrow> Inr v)"

definition model_class :: "string \<Rightarrow> pyclass" where
  "model_class name = [''__name__'' \<mapsto> PStr name]"

text \<open>
  \<^verbatim>\<open>defaults.get(k, <fallback>)\<close>: the fallback expression is an argument, evaluated
  before the lookup.
\<close>

definition defaults_get :: "pydict \<Rightarrow> string \<Rightarrow> error + pyval \<Rightarrow> error + pyval" where
  "defaults_get defaults k fallback =
     (case fallback of Inl e \<Rightarrow> Inl e | Inr v \<Rightarrow> Inr (dict_get defaults k v))"

text \<open>\<^verbatim>\<open>defaults or {}\<close>: \<^verbatim>\<open>None\<close> and the empty dictionary are falsy.\<close>

definition or_empty :: "pydict option \<Rightarrow> pydict" where
  "or_empty defaults =
     (case defaults of
        None \<Rightarrow> Map.empty
      | Some d \<Rightarrow> if d = Map.empty then Map.empty else d)"

text \<open>\<^verbatim>\<open>default if x is None else x\<close> for a list of choices and for a string.\<close>

definition choices_or :: "pyval list \<Rightarrow> pyval list option \<Rightarrow> pyval" where
  "choices_or dflt available = (case available of None \<Rightarrow> PList dflt | Some xs \<Rightarrow> PList xs)"

definition str_or :: "string \<Rightarrow> string option \<Rightarrow> pyval" where
  "str_or dflt x = (case x of None \<Rightarrow> PStr dflt | Some s \<Rightarrow> PStr s)"

section \<open>VadParams\<close>

record VadParams =
  vad_filter :: bool
  threshold :: pyfloat
  min_speech_duration_ms :: int
  max_speech_duration_s :: pyfloat
  min_silence_duration_ms :: int
  speech_pad_ms :: int

text \<open>The keyword arguments of \<^verbatim>\<open>VadParams(...)\<close>; \<open>None\<close> is an argument left out.\<close>

record VadParams_kwargs =
  vad_filter_kw :: "bool option"
  threshold_kw :: "pyfloat option"
  min_speech_duration_ms_kw :: "int option"
  max_speech_duration_s_kw :: "pyfloat option"
  min_silence_duration_ms_kw :: "int option"
  speech_pad_ms_kw :: "int option"

definition VadParams_no_kwargs :: VadParams_kwargs where
  "VadParams_no_kwargs =
     \<lparr>vad_filter_kw = None, threshold_kw = None, min_speech_duration_ms_kw = None,
      max_speech_duration_s_kw = None, min_silence_duration_ms_kw = None,
      speech_pad_ms_kw = None\<rparr>"

definition VadParams_new :: "VadParams_kwargs \<Rightarrow> error + VadParams" where
  "VadParams_new kw =
     finish
       (check_float ''threshold'' [Ge (Finite 0), Le (Finite 1)] (threshold_kw kw) @
        check_int ''min_speech_duration_ms'' [Ge 0] (min_speech_duration_ms_kw kw) @
        check_float ''max_speech_duration_s'' [Gt (Finite 0)] (max_speech_duration_s_kw kw) @
        check_int ''min_silence_duration_ms'' [Ge 0] (min_silence_duration_ms_kw kw) @
        check_int ''speech_pad_ms'' [Ge 0] (speech_pad_ms_kw kw))
       \<lparr>vad_filter = supplied_or (vad_filter_kw kw) False,
        threshold = supplied_or (threshold_kw kw) (Finite (1 / 2)),
        min_speech_duration_ms = supplied_or (min_speech_duration_ms_kw kw) 250,
        max_speech_duration_s = supplied_or (max_speech_duration_s_kw kw) PosInf,
        min_silence_duration_ms = supplied_or (min_silence_duration_ms_kw kw) 2000,
        speech_pad_ms = supplied_or (speech_pad_ms_kw kw) 400\<rparr>"

text \<open>\<^verbatim>\<open>to_dict\<close> is \<^verbatim>\<open>model_dump()\<close>: the fields and their values in declaration order.\<close>

definition VadParams_to_dict :: "VadParams \<Rightarrow> (string \<times> pyval) list" where
  "VadParams_to_dict p =
     [(''vad_filter'', PBool (vad_filter p)),
      (''threshold'', PFloat (threshold p)),
      (''min_speech_duration_ms'', PInt (min_speech_duration_ms p)),
      (''max_speech_duration_s'', PFloat (max_speech_duration_s p)),
      (''min_silence_duration_ms'', PInt (min_silence_duration_ms p)),
      (''speech_pad_ms'', PInt (speech_pad_ms p))]"

definition VadParams_fields :: "string list" where
  "VadParams_fields =
     [''vad_filter'', ''threshold'', ''min_speech_duration_ms'', ''max_speech_duration_s'',
      ''min_silence_duration_ms'', ''speech_pad_ms'']"

definition VadParams_to_gradio_inputs :: "pyclass \<Rightarrow> pydict option \<Rightarrow> error + widget list" where
  "VadParams_to_gradio_inputs cls defaults0 =
     (let defaults = or_empty defaults0 in
      collect
        [gr Checkbox
           [(''label'', Inr (gettext ''Enable Silero VAD Filter'')),
            (''value'', defaults_get defaults ''vad_filter'' (getattr cls ''vad_filter'')),
            (''interactive'', Inr (PBool True)),
            (''info'', Inr (gettext ''Enable this to transcribe only detected voice''))],
         gr Slider
           [(''minimum'', Inr (PFloat (Finite 0))),
            (''maximum'', Inr (PFloat (Finite 1))),
            (''step'', Inr (PFloat (Finite (1 / 100)))),
            (''label'', Inr (PStr ''Speech Threshold'')),
            (''value'', defaults_get defaults ''threshold'' (getattr cls ''threshold'')),
            (''info'', Inr (PStr ''Lower it to be more sensitive to small sounds.''))],
         gr Number
           [(''label'', Inr (PStr ''Minimum Speech Duration (ms)'')),
            (''precision'', Inr (PInt 0)),
            (''value'', defaults_get defaults ''min_speech_duration_ms''
                          (getattr cls ''min_speech_duration_ms'')),
            (''info'', Inr (PStr ''Final speech chunks shorter than this time are thrown out''))],
         gr Number
           [(''label'', Inr (PStr ''Maximum Speech Duration (s)'')),
            (''value'', defaults_get defaults ''max_speech_duration_s''
                          (getattr cls ''max_speech_duration_s'')),
            (''info'', Inr (PStr (''Maximum duration of speech chunks in '' @ [CHR 0x22] @
                                  ''seconds'' @ [CHR 0x22] @ ''.'')))],
         gr Number
           [(''label'', Inr (PStr ''Minimum Silence Duration (ms)'')),
            (''precision'', Inr (PInt 0)),
            (''value'', defaults_get defaults ''min_silence_duration_ms''
                          (getattr cls ''min_silence_duration_ms'')),
            (''info'', Inr (PStr (''In the end of each speech chunk wait for this time'' @
                                  '' before separating it'')))],
         gr Number
           [(''label'', Inr (PStr ''Speech Padding (ms)'')),
            (''precision'', Inr (PInt 0)),
            (''value'', defaults_get defaults ''speech_pad_ms'' (getattr cls ''speech_pad_ms'')),
            (''info'', Inr (PStr ''Final speech chunks are padded by this time each side''))]])"

section \<open>DiarizationParams\<close>

record DiarizationParams =
  is_diarize :: bool
  hf_token :: string

record DiarizationParams_kwargs =
  is_diarize_kw :: "bool option"
  hf_token_kw :: "string option"

definition DiarizationParams_no_kwargs :: DiarizationParams_kwargs where
  "DiarizationParams_no_kwargs = \<lparr>is_diarize_kw = None, hf_token_kw = None\<rparr>"

definition DiarizationParams_new :: "DiarizationParams_kwargs \<Rightarrow> error + DiarizationParams" where
  "DiarizationParams_new kw =
     finish []
       \<lparr>is_diarize = supplied_or (is_diarize_kw kw) False,
        hf_token = supplied_or (hf_token_kw kw) []\<rparr>"

definition DiarizationParams_to_dict :: "DiarizationParams \<Rightarrow> (string \<times> pyval) list" where
  "DiarizationParams_to_dict p =
     [(''is_diarize'', PBool (is_diarize p)),
      (''hf_token'', PStr (hf_token p))]"

definition DiarizationParams_fields :: "string list" where
  "DiarizationParams_fields = [''is_diarize'', ''hf_token'']"

definition DiarizationParams_to_gradio_inputs ::
    "pyclass \<Rightarrow> pydict option \<Rightarrow> pyval list option \<Rightarrow> string option \<Rightarrow> error + widget list" where
  "DiarizationParams_to_gradio_inputs cls defaults0 available_devices device =
     (let defaults = or_empty defaults0 in
      collect
        [gr Checkbox
           [(''label'', Inr (gettext ''Enable Diarization'')),
            (''value'', defaults_get defaults ''is_diarize'' (getattr cls ''is_diarize'')),
            (''info'', Inr (gettext ''Enable speaker diarization''))],
         gr Textbox
           [(''label'', Inr (gettext ''HuggingFace Token'')),
            (''value'', defaults_get defaults ''hf_token'' (getattr cls ''hf_token'')),
            (''info'', Inr (gettext ''This is only needed the first time you download the model''))],
         gr Dropdown
           [(''label'', Inr (gettext ''Device'')),
            (''choices'', Inr (choices_or [PStr ''cpu'', PStr ''cuda''] available_devices)),
            (''value'', Inr (str_or ''cuda'' device)),
            (''info'', Inr (gettext ''Device to run diarization model''))]])"

section \<open>BGMSeparationParams\<close>

record BGMSeparationParams =
  is_separate_bgm :: bool
  model_size :: string
  segment_size :: int
  save_file :: bool
  enable_offload :: bool

record BGMSeparationParams_kwargs =
  is_separate_bgm_kw :: "bool option"
  model_size_kw :: "string option"
  segment_size_kw :: "int option"
  save_file_kw :: "bool option"
  enable_offload_kw :: "bool option"

definition BGMSeparationParams_no_kwargs :: BGMSeparationParams_kwargs where
  "BGMSeparationParams_no_kwargs =
     \<lparr>is_separate_bgm_kw = None, model_size_kw = None, segment_size_kw = None,
      save_file_kw = None, enable_offload_kw = None\<rparr>"

definition BGMSeparationParams_new ::
    "BGMSeparationParams_kwargs \<Rightarrow> error + BGMSeparationParams" where
  "BGMSeparationParams_new kw =
     finish
       (check_int ''segment_size'' [Gt 0] (segment_size_kw kw))
       \<lparr>is_separate_bgm = supplied_or (is_separate_bgm_kw kw) False,
        model_size = supplied_or (model_size_kw kw) ''UVR-MDX-NET-Inst_HQ_4'',
        segment_size = supplied_or (segment_size_kw kw) 256,
        save_file = supplied_or (save_file_kw kw) False,
        enable_offload = supplied_or (enable_offload_kw kw) True\<rparr>"

definition BGMSeparationParams_to_dict :: "BGMSeparationParams \<Rightarrow> (string \<times> pyval) list" where
  "BGMSeparationParams_to_dict p =
     [(''is_separate_bgm'', PBool (is_separate_bgm p)),
      (''model_size'', PStr (model_size p)),
      (''segment_size'', PInt (segment_size p)),
      (''save_file'', PBool (save_file p)),
      (''enable_offload'', PBool (enable_offload p))]"

definition BGMSeparationParams_fields :: "string list" where
  "BGMSeparationParams_fields =
     [''is_separate_bgm'', ''model_size'', ''segment_size'', ''save_file'', ''enable_offload'']"

definition BGMSeparationParams_to_gradio_input ::
    "pyclass \<Rightarrow> pydict option \<Rightarrow> pyval list option \<Rightarrow> string option \<Rightarrow> pyval list option
      \<Rightarrow> error + widget list" where
  "BGMSeparationParams_to_gradio_input cls defaults0 available_devices device available_models =
     (let defaults = or_empty defaults0 in
      collect
        [gr Checkbox
           [(''label'', Inr (gettext ''Enable Background Music Remover Filter'')),
            (''value'', defaults_get defaults ''is_separate_bgm'' (getattr cls ''is_separate_bgm'')),
            (''interactive'', Inr (PBool True)),
            (''info'', Inr (gettext ''Enabling this will remove background music''))],
         gr Dropdown
           [(''label'', Inr (gettext ''Device'')),
            (''choices'', Inr (choices_or [PStr ''cpu'', PStr ''cuda''] available_devices)),
            (''value'', Inr (str_or ''cuda'' device)),
            (''info'', Inr (gettext ''Device to run UVR model''))],
         gr Dropdown
           [(''label'', Inr (gettext ''Model'')),
            (''choices'', Inr (choices_or [PStr ''UVR-MDX-NET-Inst_HQ_4'', PStr ''UVR-MDX-NET-Inst_3'']
                                 available_models)),
            (''value'', defaults_get defaults ''model_size'' (getattr cls ''model_size'')),
            (''info'', Inr (gettext ''UVR model size''))],
         gr Number
           [(''label'', Inr (PStr ''Segment Size'')),
            (''value'', defaults_get defaults ''segment_size'' (getattr cls ''segment_size'')),
            (''precision'', Inr (PInt 0)),
            (''info'', Inr (PStr ''Segment size for UVR model''))],
         gr Checkbox
           [(''label'', Inr (gettext ''Save separated files to output'')),
            (''value'', defaults_get defaults ''save_file'' (getattr cls ''save_file'')),
            (''info'', Inr (gettext ''Whether to save separated audio files''))],
         gr Checkbox
           [(''label'', Inr (gettext ''Offload sub model after removing background music'')),
            (''value'', defaults_get defaults ''enable_offload'' (getattr cls ''enable_offload'')),
            (''info'', Inr (gettext ''Offload UVR model after transcription''))]])"

section \<open>WhisperParams\<close>

text \<open>
  Decimal literals stand for the rationals they denote. The two punctuation defaults
  hold characters outside ASCII and are given as their UTF-8 bytes.
\<close>

record WhisperParams =
  model_size :: string
  lang :: "string option"
  is_translate :: bool
  beam_size :: int
  log_prob_threshold :: pyfloat
  no_speech_threshold :: pyfloat
  compute_type :: string
  best_of :: int
  patience :: pyfloat
  condition_on_previous_text :: bool
  prompt_reset_on_temperature :: pyfloat
  initial_prompt :: "string option"
  temperature :: pyfloat
  compression_ratio_threshold :: pyfloat
  batch_size :: int
  length_penalty :: pyfloat
  repetition_penalty :: pyfloat
  no_repeat_ngram_size :: int
  prefix :: "string option"
  suppress_blank :: bool
  suppress_tokens :: "string option"
  max_initial_timestamp :: pyfloat
  word_timestamps :: bool
  prepend_punctuations :: "string option"
  append_punctuations :: "string option"
  max_new_tokens :: "int option"
  chunk_length :: "int option"
  hallucination_silence_threshold :: "pyfloat option"
  hotwords :: "string option"
  language_detection_threshold :: "pyfloat option"
  language_detection_segments :: int

text \<open>
  The keyword arguments of \<^verbatim>\<open>WhisperParams(...)\<close>. For an \<^verbatim>\<open>Optional\<close> field,
  \<open>Some None\<close> is an explicit \<^verbatim>\<open>None\<close>.
\<close>

record WhisperParams_kwargs =
  model_size_kw :: "string option"
  lang_kw :: "string option option"
  is_translate_kw :: "bool option"
  beam_size_kw :: "int option"
  log_prob_threshold_kw :: "pyfloat option"
  no_speech_threshold_kw :: "pyfloat option"
  compute_type_kw :: "string option"
  best_of_kw :: "int option"
  patience_kw :: "pyfloat option"
  condition_on_previous_text_kw :: "bool option"
  prompt_reset_on_temperature_kw :: "pyfloat option"
  initial_prompt_kw :: "string option option"
  temperature_kw :: "pyfloat option"
  compression_ratio_threshold_kw :: "pyfloat option"
  batch_size_kw :: "int option"
  length_penalty_kw :: "pyfloat option"
  repetition_penalty_kw :: "pyfloat option"
  no_repeat_ngram_size_kw :: "int option"
  prefix_kw :: "string option option"
  suppress_blank_kw :: "bool option"
  suppress_tokens_kw :: "string option option"
  max_initial_timestamp_kw :: "pyfloat option"
  word_timestamps_kw :: "bool option"
  prepend_punctuations_kw :: "string option option"
  append_punctuations_kw :: "string option option"
  max_new_tokens_kw :: "int option option"
  chunk_length_kw :: "int option option"
  hallucination_silence_threshold_kw :: "pyfloat option option"
  hotwords_kw :: "string option option"
  language_detection_threshold_kw :: "pyfloat option option"
  language_detection_segments_kw :: "int option"

definition WhisperParams_no_kwargs :: WhisperParams_kwargs where
  "WhisperParams_no_kwargs =
     \<lparr>model_size_kw = None, lang_kw = None, is_translate_kw = None, beam_size_kw = None,
      log_prob_threshold_kw = None, no_speech_threshold_kw = None, compute_type_kw = None,
      best_of_kw = None, patience_kw = None, condition_on_previous_text_kw = None,
      prompt_reset_on_temperature_kw = None, initial_prompt_kw = None, temperature_kw = None,
      compression_ratio_threshold_kw = None, batch_size_kw = None, length_penalty_kw = None,
      repetition_penalty_kw = None, no_repeat_ngram_size_kw = None, prefix_kw = None,
      suppress_blank_kw = None, suppress_tokens_kw = None, max_initial_timestamp_kw = None,
      word_timestamps_kw = None, prepend_punctuations_kw = None, append_punctuations_kw = None,
      max_new_tokens_kw = None, chunk_length_kw = None,
      hallucination_silence_threshold_kw = None, hotwords_kw = None,
      language_detection_threshold_kw = None, language_detection_segments_kw = None\<rparr>"

text \<open>
  \<^verbatim>\<open>validate_lang\<close>, the field validator of \<^verbatim>\<open>lang\<close>. The sentinel is
  \<^verbatim>\<open>AUTOMATIC_DETECTION.unwrap()\<close>, a constant of \<^verbatim>\<open>modules.utils.constants\<close>; it is
  an argument here. A field validator runs on a supplied value only.
\<close>

definition validate_lang :: "string \<Rightarrow> string option \<Rightarrow> string option" where
  "validate_lang sentinel v = (if v = Some sentinel then None else v)"

definition prepend_punctuations_default :: string where
  "prepend_punctuations_default =
     [CHR 0x22, CHR 0x27, CHR 0xE2, CHR 0x80, CHR 0x9C, CHR 0xC2, CHR 0xBF,
      CHR 0x28, CHR 0x5B, CHR 0x7B, CHR 0x2D]"

definition append_punctuations_default :: string where
  "append_punctuations_default =
     [CHR 0x22, CHR 0x27, CHR 0x2E, CHR 0xE3, CHR 0x80, CHR 0x82, CHR 0x2C,
      CHR 0xEF, CHR 0xBC, CHR 0x8C, CHR 0x21, CHR 0xEF, CHR 0xBC, CHR 0x81, CHR 0x3F,
      CHR 0xEF, CHR 0xBC, CHR 0x9F, CHR 0x3A, CHR 0xEF, CHR 0xBC, CHR 0x9A,
      CHR 0xE2, CHR 0x80, CHR 0x9D, CHR 0x29, CHR 0x5D, CHR 0x7D, CHR 0xE3, CHR 0x80, CHR 0x81]"

definition WhisperParams_new :: "string \<Rightarrow> WhisperParams_kwargs \<Rightarrow> error + WhisperParams" where
  "WhisperParams_new sentinel kw =
     finish
       (check_int ''beam_size'' [Ge 1] (beam_size_kw kw) @
        check_float ''no_speech_threshold'' [Ge (Finite 0), Le (Finite 1)]
          (no_speech_threshold_kw kw) @
        check_int ''best_of'' [Ge 1] (best_of_kw kw) @
        check_float ''patience'' [Gt (Finite 0)] (patience_kw kw) @
        check_float ''prompt_reset_on_temperature'' [Ge (Finite 0), Le (Finite 1)]
          (prompt_reset_on_temperature_kw kw) @
        check_float ''temperature'' [Ge (Finite 0)] (temperature_kw kw) @
        check_float ''compression_ratio_threshold'' [Gt (Finite 0)]
          (compression_ratio_threshold_kw kw) @
        check_int ''batch_size'' [Gt 0] (batch_size_kw kw) @
        check_float ''length_penalty'' [Gt (Finite 0)] (length_penalty_kw kw) @
        check_float ''repetition_penalty'' [Gt (Finite 0)] (repetition_penalty_kw kw) @
        check_int ''no_repeat_ngram_size'' [Ge 0] (no_repeat_ngram_size_kw kw) @
        check_float ''max_initial_timestamp'' [Ge (Finite 0)] (max_initial_timestamp_kw kw) @
        check_int ''language_detection_segments'' [Gt 0] (language_detection_segments_kw kw))
       \<lparr>model_size = supplied_or (model_size_kw kw) ''large-v2'',
        lang = supplied_or (map_option (validate_lang sentinel) (lang_kw kw)) None,
        is_translate = supplied_or (is_translate_kw kw) False,
        beam_size = supplied_or (beam_size_kw kw) 5,
        log_prob_threshold = supplied_or (log_prob_threshold_kw kw) (Finite (- 1)),
        no_speech_threshold = supplied_or (no_speech_threshold_kw kw) (Finite (6 / 10)),
        compute_type = supplied_or (compute_type_kw kw) ''float16'',
        best_of = supplied_or (best_of_kw kw) 5,
        patience = supplied_or (patience_kw kw) (Finite 1),
        condition_on_previous_text = supplied_or (condition_on_previous_text_kw kw) True,
        prompt_reset_on_temperature =
          supplied_or (prompt_reset_on_temperature_kw kw) (Finite (1 / 2)),
        initial_prompt = supplied_or (initial_prompt_kw kw) None,
        temperature = supplied_or (temperature_kw kw) (Finite 0),
        compression_ratio_threshold =
          supplied_or (compression_ratio_threshold_kw kw) (Finite (24 / 10)),
        batch_size = supplied_or (batch_size_kw kw) 24,
        length_penalty = supplied_or (length_penalty_kw kw) (Finite 1),
        repetition_penalty = supplied_or (repetition_penalty_kw kw) (Finite 1),
        no_repeat_ngram_size = supplied_or (no_repeat_ngram_size_kw kw) 0,
        prefix = supplied_or (prefix_kw kw) None,
        suppress_blank = supplied_or (suppress_blank_kw kw) True,
        suppress_tokens = supplied_or (suppress_tokens_kw kw) (Some ''[-1]''),
        max_initial_timestamp = supplied_or (max_initial_timestamp_kw kw) (Finite 0),
        word_timestamps = supplied_or (word_timestamps_kw kw) False,
        prepend_punctuations =
          supplied_or (prepend_punctuations_kw kw) (Some prepend_punctuations_default),
        append_punctuations =
          supplied_or (append_punctuations_kw kw) (Some append_punctuations_default),
        max_new_tokens = supplied_or (max_new_tokens_kw kw) None,
        chunk_length = supplied_or (chunk_length_kw kw) (Some 30),
        hallucination_silence_threshold =
          supplied_or (hallucination_silence_threshold_kw kw) None,
        hotwords = supplied_or (hotwords_kw kw) None,
        language_detection_threshold = supplied_or (language_detection_threshold_kw kw) None,
        language_detection_segments = supplied_or (language_detection_segments_kw kw) 1\<rparr>"

definition WhisperParams_to_dict :: "WhisperParams \<Rightarrow> (string \<times> pyval) list" where
  "WhisperParams_to_dict p =
     [(''model_size'', PStr (model_size p)),
      (''lang'', opt_str (lang p)),
      (''is_translate'', PBool (is_translate p)),
      (''beam_size'', PInt (beam_size p)),
      (''log_prob_threshold'', PFloat (log_prob_threshold p)),
      (''no_speech_threshold'', PFloat (no_speech_threshold p)),
      (''compute_type'', PStr (compute_type p)),
      (''best_of'', PInt (best_of p)),
      (''patience'', PFloat (patience p)),
      (''condition_on_previous_text'', PBool (condition_on_previous_text p)),
      (''prompt_reset_on_temperature'', PFloat (prompt_reset_on_temperature p)),
      (''initial_prompt'', opt_str (initial_prompt p)),
      (''temperature'', PFloat (temperature p)),
      (''compression_ratio_threshold'', PFloat (compression_ratio_threshold p)),
      (''batch_size'', PInt (batch_size p)),
      (''length_penalty'', PFloat (length_penalty p)),
      (''repetition_penalty'', PFloat (repetition_penalty p)),
      (''no_repeat_ngram_size'', PInt (no_repeat_ngram_size p)),
      (''prefix'', opt_str (prefix p)),
      (''suppress_blank'', PBool (suppress_blank p)),
      (''suppress_tokens'', opt_str (suppress_tokens p)),
      (''max_initial_timestamp'', PFloat (max_initial_timestamp p)),
      (''word_timestamps'', PBool (word_timestamps p)),
      (''prepend_punctuations'', opt_str (prepend_punctuations p)),
      (''append_punctuations'', opt_str (append_punctuations p)),
      (''max_new_tokens'', opt_int (max_new_tokens p)),
      (''chunk_length'', opt_int (chunk_length p)),
      (''hallucination_silence_threshold'', opt_float (hallucination_silence_threshold p)),
      (''hotwords'', opt_str (hotwords p)),
      (''language_detection_threshold'', opt_float (language_detection_threshold p)),
      (''language_detection_segments'', PInt (language_detection_segments p))]"

definition WhisperParams_fields :: "string list" where
  "WhisperParams_fields =
     [''model_size'', ''lang'', ''is_translate'', ''beam_size'', ''log_prob_threshold'',
      ''no_speech_threshold'', ''compute_type'', ''best_of'', ''patience'',
      ''condition_on_previous_text'', ''prompt_reset_on_temperature'', ''initial_prompt'',
      ''temperature'', ''compression_ratio_threshold'', ''batch_size'', ''length_penalty'',
      ''repetition_penalty'', ''no_repeat_ngram_size'', ''prefix'', ''suppress_blank'',
      ''suppress_tokens'', ''max_initial_timestamp'', ''word_timestamps'',
      ''prepend_punctuations'', ''append_punctuations'', ''max_new_tokens'', ''chunk_length'',
      ''hallucination_silence_threshold'', ''hotwords'', ''language_detection_threshold'',
      ''language_detection_segments'']"

text \<open>\<^verbatim>\<open>not only_advanced\<close>: \<^verbatim>\<open>None\<close> is falsy.\<close>

definition py_not :: "bool option \<Rightarrow> bool" where
  "py_not x = (case x of None \<Rightarrow> True | Some b \<Rightarrow> \<not> b)"

text \<open>
  \<^verbatim>\<open>to_gradio_inputs\<close> appends up to four list displays to \<^verbatim>\<open>inputs\<close>. Each display
  is a definition of its own here, in the order of the source.
\<close>

definition whisper_basic_inputs :: "pyclass \<Rightarrow> pydict \<Rightarrow> (error + widget) list" where
  "whisper_basic_inputs cls defaults =
     [gr Dropdown
        [(''label'', Inr (PStr ''Model Size'')),
         (''choices'', Inr (PList [PStr ''small'', PStr ''medium'', PStr ''large-v2''])),
         (''value'', defaults_get defaults ''model_size'' (getattr cls ''model_size'')),
         (''info'', Inr (PStr ''Whisper model size''))],
      gr Textbox
        [(''label'', Inr (PStr ''Language'')),
         (''value'', defaults_get defaults ''lang'' (getattr cls ''lang'')),
         (''info'', Inr (PStr ''Source language of the file to transcribe''))],
      gr Checkbox
        [(''label'', Inr (PStr ''Translate to English'')),
         (''value'', defaults_get defaults ''is_translate'' (getattr cls ''is_translate'')),
         (''info'', Inr (PStr ''Translate speech to English end-to-end''))]]"

definition whisper_advanced_inputs ::
    "pyclass \<Rightarrow> pydict \<Rightarrow> pyval list option \<Rightarrow> string option \<Rightarrow> (error + widget) list" where
  "whisper_advanced_inputs cls defaults available_compute_types compute_type_arg =
     [gr Number
        [(''label'', Inr (PStr ''Beam Size'')),
         (''value'', defaults_get defaults ''beam_size'' (getattr cls ''beam_size'')),
         (''precision'', Inr (PInt 0)),
         (''info'', Inr (PStr ''Beam size for decoding''))],
      gr Number
        [(''label'', Inr (PStr ''Log Probability Threshold'')),
         (''value'', defaults_get defaults ''log_prob_threshold''
                       (getattr cls ''log_prob_threshold'')),
         (''info'', Inr (PStr ''Threshold for average log probability of sampled tokens''))],
      gr Number
        [(''label'', Inr (PStr ''No Speech Threshold'')),
         (''value'', defaults_get defaults ''no_speech_threshold''
                       (getattr cls ''no_speech_threshold'')),
         (''info'', Inr (PStr ''Threshold for detecting silence''))],
      gr Dropdown
        [(''label'', Inr (PStr ''Compute Type'')),
         (''choices'', Inr (choices_or [PStr ''float16'', PStr ''int8'', PStr ''int16'']
                              available_compute_types)),
         (''value'', defaults_get defaults ''compute_type'' (Inr (opt_str compute_type_arg))),
         (''info'', Inr (PStr ''Computation type for transcription''))],
      gr Number
        [(''label'', Inr (PStr ''Best Of'')),
         (''value'', defaults_get defaults ''best_of'' (getattr cls ''best_of'')),
         (''precision'', Inr (PInt 0)),
         (''info'', Inr (PStr ''Number of candidates when sampling''))],
      gr Number
        [(''label'', Inr (PStr ''Patience'')),
         (''value'', defaults_get defaults ''patience'' (getattr cls ''patience'')),
         (''info'', Inr (PStr ''Beam search patience factor''))],
      gr Checkbox
        [(''label'', Inr (PStr ''Condition On Previous Text'')),
         (''value'', defaults_get defaults ''condition_on_previous_text''
                       (getattr cls ''condition_on_previous_text'')),
         (''info'', Inr (PStr ''Use previous output as prompt for next window''))],
      gr Slider
        [(''label'', Inr (PStr ''Prompt Reset On Temperature'')),
         (''value'', defaults_get defaults ''prompt_reset_on_temperature''
                       (getattr cls ''prompt_reset_on_temperature'')),
         (''minimum'', Inr (PInt 0)),
         (''maximum'', Inr (PInt 1)),
         (''step'', Inr (PFloat (Finite (1 / 100)))),
         (''info'', Inr (PStr ''Temperature threshold for resetting prompt''))],
      gr Textbox
        [(''label'', Inr (PStr ''Initial Prompt'')),
         (''value'', defaults_get defaults ''initial_prompt'' (getattr cls ''initial_prompt'')),
         (''info'', Inr (PStr ''Initial prompt for first window''))],
      gr Slider
        [(''label'', Inr (PStr ''Temperature'')),
         (''value'', defaults_get defaults ''temperature'' (getattr cls ''temperature'')),
         (''minimum'', Inr (PFloat (Finite 0))),
         (''step'', Inr (PFloat (Finite (1 / 100)))),
         (''maximum'', Inr (PFloat (Finite 1))),
         (''info'', Inr (PStr ''Temperature for sampling''))],
      gr Number
        [(''label'', Inr (PStr ''Compression Ratio Threshold'')),
         (''value'', defaults_get defaults ''compression_ratio_threshold''
                       (getattr cls ''compression_ratio_threshold'')),
         (''info'', Inr (PStr ''Threshold for gzip compression ratio''))]]"

definition whisper_faster_inputs :: "pyclass \<Rightarrow> pydict \<Rightarrow> pyval \<Rightarrow> (error + widget) list" where
  "whisper_faster_inputs cls defaults whisper_type =
     [gr Number
        [(''label'', Inr (PStr ''Length Penalty'')),
         (''value'', defaults_get defaults ''length_penalty'' (getattr cls ''length_penalty'')),
         (''info'', Inr (PStr ''Exponential length penalty'')),
         (''visible'', Inr (PBool (whisper_type = PStr ''faster_whisper'')))],
      gr Number
        [(''label'', Inr (PStr ''Repetition Penalty'')),
         (''value'', defaults_get defaults ''repetition_penalty''
                       (getattr cls ''repetition_penalty'')),
         (''info'', Inr (PStr ''Penalty for repeated tokens''))],
      gr Number
        [(''label'', Inr (PStr ''No Repeat N-gram Size'')),
         (''value'', defaults_get defaults ''no_repeat_ngram_size''
                       (getattr cls ''no_repeat_ngram_size'')),
         (''precision'', Inr (PInt 0)),
         (''info'', Inr (PStr ''Size of n-grams to prevent repetition''))],
      gr Textbox
        [(''label'', Inr (PStr ''Prefix'')),
         (''value'', defaults_get defaults ''prefix'' (getattr cls ''prefix'')),
         (''info'', Inr (PStr ''Prefix text for first window''))],
      gr Checkbox
        [(''label'', Inr (PStr ''Suppress Blank'')),
         (''value'', defaults_get defaults ''suppress_blank'' (getattr cls ''suppress_blank'')),
         (''info'', Inr (PStr ''Suppress blank outputs at start of sampling''))],
      gr Textbox
        [(''label'', Inr (PStr ''Suppress Tokens'')),
         (''value'', defaults_get defaults ''suppress_tokens'' (getattr cls ''suppress_tokens'')),
         (''info'', Inr (PStr ''Token IDs to suppress''))],
      gr Number
        [(''label'', Inr (PStr ''Max Initial Timestamp'')),
         (''value'', defaults_get defaults ''max_initial_timestamp''
                       (getattr cls ''max_initial_timestamp'')),
         (''info'', Inr (PStr ''Maximum initial timestamp''))],
      gr Checkbox
        [(''label'', Inr (PStr ''Word Timestamps'')),
         (''value'', defaults_get defaults ''word_timestamps'' (getattr cls ''word_timestamps'')),
         (''info'', Inr (PStr ''Extract word-level timestamps''))],
      gr Textbox
        [(''label'', Inr (PStr ''Prepend Punctuations'')),
         (''value'', defaults_get defaults ''prepend_punctuations''
                       (getattr cls ''prepend_punctuations'')),
         (''info'', Inr (PStr ''Punctuations to merge with next word''))],
      gr Textbox
        [(''label'', Inr (PStr ''Append Punctuations'')),
         (''value'', defaults_get defaults ''append_punctuations''
                       (getattr cls ''append_punctuations'')),
         (''info'', Inr (PStr ''Punctuations to merge with previous word''))],
      gr Number
        [(''label'', Inr (PStr ''Max New Tokens'')),
         (''value'', defaults_get defaults ''max_new_tokens'' (getattr cls ''max_new_tokens'')),
         (''precision'', Inr (PInt 0)),
         (''info'', Inr (PStr ''Maximum number of new tokens per chunk''))],
      gr Number
        [(''label'', Inr (PStr ''Chunk Length (s)'')),
         (''value'', defaults_get defaults ''chunk_length'' (getattr cls ''chunk_length'')),
         (''precision'', Inr (PInt 0)),
         (''info'', Inr (PStr ''Length of audio segments in seconds''))],
      gr Number
        [(''label'', Inr (PStr ''Hallucination Silence Threshold (sec)'')),
         (''value'', defaults_get defaults ''hallucination_silence_threshold''
                       (getattr cls ''hallucination_silence_threshold'')),
         (''info'', Inr (PStr
            ''Threshold for skipping silent periods in hallucination detection''))],
      gr Textbox
        [(''label'', Inr (PStr ''Hotwords'')),
         (''value'', defaults_get defaults ''hotwords'' (getattr cls ''hotwords'')),
         (''info'', Inr (PStr ''Hotwords/hint phrases for the model''))],
      gr Number
        [(''label'', Inr (PStr ''Language Detection Threshold'')),
         (''value'', defaults_get defaults ''language_detection_threshold''
                       (getattr cls ''language_detection_threshold'')),
         (''info'', Inr (PStr ''Threshold for language detection probability''))],
      gr Number
        [(''label'', Inr (PStr ''Language Detection Segments'')),
         (''value'', defaults_get defaults ''language_detection_segments''
                       (getattr cls ''language_detection_segments'')),
         (''precision'', Inr (PInt 0)),
         (''info'', Inr (PStr ''Number of segments for language detection''))]]"

definition whisper_insanely_fast_inputs ::
    "pyclass \<Rightarrow> pydict \<Rightarrow> pyval \<Rightarrow> (error + widget) list" where
  "whisper_insanely_fast_inputs cls defaults whisper_type =
     [gr Number
        [(''label'', Inr (PStr ''Batch Size'')),
         (''value'', defaults_get defaults ''batch_size'' (getattr cls ''batch_size'')),
         (''precision'', Inr (PInt 0)),
         (''info'', Inr (PStr ''Batch size for processing'')),
         (''visible'', Inr (PBool (whisper_type = PStr ''insanely_fast_whisper'')))]]"

text \<open>
  \<^verbatim>\<open>whisper_type\<close> is annotated \<^verbatim>\<open>Optional[WhisperImpl]\<close>, which Python does not
  enforce: it is any value here. Equality of Python values of different types, and of an
  enum member with anything but itself, is false, as equality of \<^typ>\<open>pyval\<close> is.
  The arguments are the values the call passes; a caller that leaves one out passes its
  default, \<^verbatim>\<open>True\<close> for \<^verbatim>\<open>only_advanced\<close> and \<^verbatim>\<open>None\<close> for the others.
\<close>

definition WhisperParams_to_gradio_inputs ::
    "pyclass \<Rightarrow> pydict option \<Rightarrow> bool option \<Rightarrow> pyval \<Rightarrow> pyval list option \<Rightarrow> string option
      \<Rightarrow> error + widget list" where
  "WhisperParams_to_gradio_inputs cls defaults0 only_advanced whisper_type0
       available_compute_types compute_type_arg =
     (let defaults = (case defaults0 of None \<Rightarrow> Map.empty | Some d \<Rightarrow> d);
          whisper_type = (if whisper_type0 = PNone then PEnum FASTER_WHISPER else whisper_type0)
      in collect
           ((if py_not only_advanced then whisper_basic_inputs cls defaults else []) @
            whisper_advanced_inputs cls defaults available_compute_types compute_type_arg @
            (if whisper_type = PEnum FASTER_WHISPER
             then whisper_faster_inputs cls defaults whisper_type else []) @
            (if whisper_type = PEnum INSANELY_FAST_WHISPER
             then whisper_insanely_fast_inputs cls defaults whisper_type else [])))"

section \<open>TranscriptionPipelineParams\<close>

record TranscriptionPipelineParams =
  whisper :: WhisperParams
  vad :: VadParams
  diarization :: DiarizationParams
  bgm_separation :: BGMSeparationParams

record TranscriptionPipelineParams_kwargs =
  whisper_kw :: "WhisperParams option"
  vad_kw :: "VadParams option"
  diarization_kw :: "DiarizationParams option"
  bgm_separation_kw :: "BGMSeparationParams option"

definition TranscriptionPipelineParams_no_kwargs :: TranscriptionPipelineParams_kwargs where
  "TranscriptionPipelineParams_no_kwargs =
     \<lparr>whisper_kw = None, vad_kw = None, diarization_kw = None, bgm_separation_kw = None\<rparr>"

text \<open>\<^verbatim>\<open>Field(default_factory=C)\<close>: a field left out is \<^verbatim>\<open>C()\<close>.\<close>

definition default_factory :: "(error + 'a) \<Rightarrow> 'a option \<Rightarrow> error + 'a" where
  "default_factory factory supplied = (case supplied of None \<Rightarrow> factory | Some v \<Rightarrow> Inr v)"

definition TranscriptionPipelineParams_new ::
    "string \<Rightarrow> TranscriptionPipelineParams_kwargs \<Rightarrow> error + TranscriptionPipelineParams" where
  "TranscriptionPipelineParams_new sentinel kw =
     (case default_factory (WhisperParams_new sentinel WhisperParams_no_kwargs) (whisper_kw kw) of
        Inl e \<Rightarrow> Inl e
      | Inr w \<Rightarrow>
     (case default_factory (VadParams_new VadParams_no_kwargs) (vad_kw kw) of
        Inl e \<Rightarrow> Inl e
      | Inr v \<Rightarrow>
     (case default_factory (DiarizationParams_new DiarizationParams_no_kwargs)
             (diarization_kw kw) of
        Inl e \<Rightarrow> Inl e
      | Inr d \<Rightarrow>
     (case default_factory (BGMSeparationParams_new BGMSeparationParams_no_kwargs)
             (bgm_separation_kw kw) of
        Inl e \<Rightarrow> Inl e
      | Inr b \<Rightarrow> Inr \<lparr>whisper = w, vad = v, diarization = d, bgm_separation = b\<rparr>))))"

definition TranscriptionPipelineParams_to_dict ::
    "TranscriptionPipelineParams \<Rightarrow> (string \<times> (string \<times> pyval) list) list" where
  "TranscriptionPipelineParams_to_dict p =
     [(''whisper'', WhisperParams_to_dict (whisper p)),
      (''vad'', VadParams_to_dict (vad p)),
      (''diarization'', DiarizationParams_to_dict (diarization p)),
      (''bgm_separation'', BGMSeparationParams_to_dict (bgm_separation p))]"



section \<open>Vocabulary of the properties\<close>

text \<open>A keyword argument that is supplied satisfies \<open>P\<close>.\<close>

definition supplied_ok :: "'a option \<Rightarrow> ('a \<Rightarrow> bool) \<Rightarrow> bool" where
  "supplied_ok supplied P = (case supplied of None \<Rightarrow> True | Some v \<Rightarrow> P v)"

text \<open>The class answers to no name of the list, as a model class does to its field names.\<close>

definition no_field_attribute :: "pyclass \<Rightarrow> string list \<Rightarrow> bool" where
  "no_field_attribute cls names = list_all (\<lambda>k. cls k = None) names"

text \<open>The dictionary has every key of the list.\<close>

definition has_keys :: "pydict \<Rightarrow> string list \<Rightarrow> bool" where
  "has_keys d ks = list_all (\<lambda>k. d k \<noteq> None) ks"

text \<open>A dictionary with an entry, \<^verbatim>\<open>True\<close>, under every name of the list.\<close>

definition full_dict :: "string list \<Rightarrow> pydict" where
  "full_dict names = dict_of (map (\<lambda>k. (k, PBool True)) names)"

section \<open>Construction\<close>

lemma check_Ge: "check leq n [Ge a] s = [] \<longleftrightarrow> supplied_ok s (\<lambda>v. leq a v)"
  by (simp add: check_def supplied_ok_def split: option.splits)

lemma check_Gt: "check leq n [Gt a] s = [] \<longleftrightarrow> supplied_ok s (\<lambda>v. \<not> leq v a)"
  by (simp add: check_def supplied_ok_def split: option.splits)

lemma check_Ge_Le:
  "check leq n [Ge a, Le b] s = [] \<longleftrightarrow> supplied_ok s (\<lambda>v. leq a v \<and> leq v b)"
  by (simp add: check_def supplied_ok_def split: option.splits)

lemmas check_empty = check_Ge check_Gt check_Ge_Le check_float_def check_int_def int_le_def

lemma finish_Inr: "(\<exists>p. finish errs r = Inr p) \<longleftrightarrow> errs = []"
  by (simp add: finish_def)

lemma finish_total:
  "(\<exists>p. finish errs r = Inr p) \<or> (\<exists>es. es \<noteq> [] \<and> finish errs r = Inl (ValidationError es))"
  by (simp add: finish_def)

lemmas eval_new = finish_def check_float_def check_int_def check_def supplied_or_def

lemma VadParams_default:
  "VadParams_new VadParams_no_kwargs =
     Inr \<lparr>vad_filter = False, threshold = Finite (1 / 2), min_speech_duration_ms = 250,
          max_speech_duration_s = PosInf, min_silence_duration_ms = 2000,
          speech_pad_ms = 400\<rparr>"
  by (simp add: VadParams_new_def VadParams_no_kwargs_def eval_new)

lemma DiarizationParams_default:
  "DiarizationParams_new DiarizationParams_no_kwargs = Inr \<lparr>is_diarize = False, hf_token = []\<rparr>"
  by (simp add: DiarizationParams_new_def DiarizationParams_no_kwargs_def eval_new)

lemma BGMSeparationParams_default:
  "BGMSeparationParams_new BGMSeparationParams_no_kwargs =
     Inr \<lparr>is_separate_bgm = False, model_size = ''UVR-MDX-NET-Inst_HQ_4'', segment_size = 256,
          save_file = False, enable_offload = True\<rparr>"
  by (simp add: BGMSeparationParams_new_def BGMSeparationParams_no_kwargs_def eval_new)

lemma WhisperParams_default:
  "WhisperParams_new sentinel WhisperParams_no_kwargs =
     Inr \<lparr>model_size = ''large-v2'', lang = None, is_translate = False, beam_size = 5,
          log_prob_threshold = Finite (- 1), no_speech_threshold = Finite (6 / 10),
          compute_type = ''float16'', best_of = 5, patience = Finite 1,
          condition_on_previous_text = True, prompt_reset_on_temperature = Finite (1 / 2),
          initial_prompt = None, temperature = Finite 0,
          compression_ratio_threshold = Finite (24 / 10), batch_size = 24,
          length_penalty = Finite 1, repetition_penalty = Finite 1, no_repeat_ngram_size = 0,
          prefix = None, suppress_blank = True, suppress_tokens = Some ''[-1]'',
          max_initial_timestamp = Finite 0, word_timestamps = False,
          prepend_punctuations = Some prepend_punctuations_default,
          append_punctuations = Some append_punctuations_default,
          max_new_tokens = None, chunk_length = Some 30,
          hallucination_silence_threshold = None, hotwords = None,
          language_detection_threshold = None, language_detection_segments = 1\<rparr>"
  by (simp add: WhisperParams_new_def WhisperParams_no_kwargs_def eval_new)

text \<open>
  C7. Each of the four parameter records can be constructed with no arguments, and the
  record that results holds the defaults of the field declarations: for
  \<^verbatim>\<open>VadParams\<close> \<open>False\<close>, \<open>0.5\<close>, \<open>250\<close>, \<open>+infinity\<close>, \<open>2000\<close>, \<open>400\<close>; for
  \<^verbatim>\<open>WhisperParams\<close> among others \<open>model_size = "large-v2"\<close>, \<open>lang = None\<close>,
  \<open>beam_size = 5\<close>, \<open>temperature = 0.0\<close>, \<open>compute_type = "float16"\<close>; for
  \<^verbatim>\<open>BGMSeparationParams\<close> \<open>model_size = "UVR-MDX-NET-Inst_HQ_4"\<close>,
  \<open>segment_size = 256\<close>, \<open>enable_offload = True\<close>.
\<close>

theorem construction_without_arguments:
  "VadParams_new VadParams_no_kwargs =
     Inr \<lparr>vad_filter = False, threshold = Finite (1 / 2), min_speech_duration_ms = 250,
          max_speech_duration_s = PosInf, min_silence_duration_ms = 2000,
          speech_pad_ms = 400\<rparr> \<and>
   DiarizationParams_new DiarizationParams_no_kwargs =
     Inr \<lparr>is_diarize = False, hf_token = []\<rparr> \<and>
   BGMSeparationParams_new BGMSeparationParams_no_kwargs =
     Inr \<lparr>is_separate_bgm = False, model_size = ''UVR-MDX-NET-Inst_HQ_4'', segment_size = 256,
          save_file = False, enable_offload = True\<rparr> \<and>
   WhisperParams_new sentinel WhisperParams_no_kwargs =
     Inr \<lparr>model_size = ''large-v2'', lang = None, is_translate = False, beam_size = 5,
          log_prob_threshold = Finite (- 1), no_speech_threshold = Finite (6 / 10),
          compute_type = ''float16'', best_of = 5, patience = Finite 1,
          condition_on_previous_text = True, prompt_reset_on_temperature = Finite (1 / 2),
          initial_prompt = None, temperature = Finite 0,
          compression_ratio_threshold = Finite (24 / 10), batch_size = 24,
          length_penalty = Finite 1, repetition_penalty = Finite 1, no_repeat_ngram_size = 0,
          prefix = None, suppress_blank = True, suppress_tokens = Some ''[-1]'',
          max_initial_timestamp = Finite 0, word_timestamps = False,
          prepend_punctuations = Some prepend_punctuations_default,
          append_punctuations = Some append_punctuations_default,
          max_new_tokens = None, chunk_length = Some 30,
          hallucination_silence_threshold = None, hotwords = None,
          language_detection_threshold = None, language_detection_segments = 1\<rparr>"
  by (simp only: VadParams_default DiarizationParams_default BGMSeparationParams_default
        WhisperParams_default simp_thms)

text \<open>
  C4. Construction succeeds exactly when every supplied value is within the bounds its
  field declares, and fails with a validation error, producing no record, otherwise.
  The bounds are those of the declarations: for \<^verbatim>\<open>VadParams\<close>, \<open>threshold\<close> in
  \<open>[0, 1]\<close>, \<open>max_speech_duration_s\<close> above \<open>0\<close>, the three durations in milliseconds
  not negative; for \<^verbatim>\<open>WhisperParams\<close>, \<open>no_speech_threshold\<close> and
  \<open>prompt_reset_on_temperature\<close> in \<open>[0, 1]\<close>, \<open>beam_size\<close> and \<open>best_of\<close> at least
  \<open>1\<close>, and the bounds of the nine other bounded fields; for
  \<^verbatim>\<open>BGMSeparationParams\<close>, \<open>segment_size\<close> above \<open>0\<close>. \<^verbatim>\<open>DiarizationParams\<close>
  declares no bound.
\<close>

theorem construction_succeeds_iff_in_range:
  "((\<exists>p. VadParams_new kv = Inr p) \<longleftrightarrow>
      supplied_ok (threshold_kw kv) (\<lambda>t. float_le (Finite 0) t \<and> float_le t (Finite 1)) \<and>
      supplied_ok (min_speech_duration_ms_kw kv) (\<lambda>n. 0 \<le> n) \<and>
      supplied_ok (max_speech_duration_s_kw kv) (\<lambda>t. \<not> float_le t (Finite 0)) \<and>
      supplied_ok (min_silence_duration_ms_kw kv) (\<lambda>n. 0 \<le> n) \<and>
      supplied_ok (speech_pad_ms_kw kv) (\<lambda>n. 0 \<le> n)) \<and>
   ((\<exists>p. VadParams_new kv = Inr p) \<or>
    (\<exists>es. es \<noteq> [] \<and> VadParams_new kv = Inl (ValidationError es))) \<and>
   ((\<exists>p. WhisperParams_new sentinel kw = Inr p) \<longleftrightarrow>
      supplied_ok (beam_size_kw kw) (\<lambda>n. 1 \<le> n) \<and>
      supplied_ok (no_speech_threshold_kw kw)
        (\<lambda>t. float_le (Finite 0) t \<and> float_le t (Finite 1)) \<and>
      supplied_ok (best_of_kw kw) (\<lambda>n. 1 \<le> n) \<and>
      supplied_ok (patience_kw kw) (\<lambda>t. \<not> float_le t (Finite 0)) \<and>
      supplied_ok (prompt_reset_on_temperature_kw kw)
        (\<lambda>t. float_le (Finite 0) t \<and> float_le t (Finite 1)) \<and>
      supplied_ok (temperature_kw kw) (\<lambda>t. float_le (Finite 0) t) \<and>
      supplied_ok (compression_ratio_threshold_kw kw) (\<lambda>t. \<not> float_le t (Finite 0)) \<and>
      supplied_ok (batch_size_kw kw) (\<lambda>n. 0 < n) \<and>
      supplied_ok (length_penalty_kw kw) (\<lambda>t. \<not> float_le t (Finite 0)) \<and>
      supplied_ok (repetition_penalty_kw kw) (\<lambda>t. \<not> float_le t (Finite 0)) \<and>
      supplied_ok (no_repeat_ngram_size_kw kw) (\<lambda>n. 0 \<le> n) \<and>
      supplied_ok (max_initial_timestamp_kw kw) (\<lambda>t. float_le (Finite 0) t) \<and>
      supplied_ok (language_detection_segments_kw kw) (\<lambda>n. 0 < n)) \<and>
   ((\<exists>p. WhisperParams_new sentinel kw = Inr p) \<or>
    (\<exists>es. es \<noteq> [] \<and> WhisperParams_new sentinel kw = Inl (ValidationError es))) \<and>
   ((\<exists>p. BGMSeparationParams_new kb = Inr p) \<longleftrightarrow>
      supplied_ok (segment_size_kw kb) (\<lambda>n. 0 < n)) \<and>
   ((\<exists>p. BGMSeparationParams_new kb = Inr p) \<or>
    (\<exists>es. es \<noteq> [] \<and> BGMSeparationParams_new kb = Inl (ValidationError es))) \<and>
   (\<exists>p. DiarizationParams_new kd = Inr p)"
proof -
  have vad: "(\<exists>p. VadParams_new kv = Inr p) \<longleftrightarrow>
      supplied_ok (threshold_kw kv) (\<lambda>t. float_le (Finite 0) t \<and> float_le t (Finite 1)) \<and>
      supplied_ok (min_speech_duration_ms_kw kv) (\<lambda>n. 0 \<le> n) \<and>
      supplied_ok (max_speech_duration_s_kw kv) (\<lambda>t. \<not> float_le t (Finite 0)) \<and>
      supplied_ok (min_silence_duration_ms_kw kv) (\<lambda>n. 0 \<le> n) \<and>
      supplied_ok (speech_pad_ms_kw kv) (\<lambda>n. 0 \<le> n)"
    unfolding VadParams_new_def finish_Inr by (simp add: check_empty)
  have whisper: "(\<exists>p. WhisperParams_new sentinel kw = Inr p) \<longleftrightarrow>
      supplied_ok (beam_size_kw kw) (\<lambda>n. 1 \<le> n) \<and>
      supplied_ok (no_speech_threshold_kw kw)
        (\<lambda>t. float_le (Finite 0) t \<and> float_le t (Finite 1)) \<and>
      supplied_ok (best_of_kw kw) (\<lambda>n. 1 \<le> n) \<and>
      supplied_ok (patience_kw kw) (\<lambda>t. \<not> float_le t (Finite 0)) \<and>
      supplied_ok (prompt_reset_on_temperature_kw kw)
        (\<lambda>t. float_le (Finite 0) t \<and> float_le t (Finite 1)) \<and>
      supplied_ok (temperature_kw kw) (\<lambda>t. float_le (Finite 0) t) \<and>
      supplied_ok (compression_ratio_threshold_kw kw) (\<lambda>t. \<not> float_le t (Finite 0)) \<and>
      supplied_ok (batch_size_kw kw) (\<lambda>n. 0 < n) \<and>
      supplied_ok (length_penalty_kw kw) (\<lambda>t. \<not> float_le t (Finite 0)) \<and>
      supplied_ok (repetition_penalty_kw kw) (\<lambda>t. \<not> float_le t (Finite 0)) \<and>
      supplied_ok (no_repeat_ngram_size_kw kw) (\<lambda>n. 0 \<le> n) \<and>
      supplied_ok (max_initial_timestamp_kw kw) (\<lambda>t. float_le (Finite 0) t) \<and>
      supplied_ok (language_detection_segments_kw kw) (\<lambda>n. 0 < n)"
    unfolding WhisperParams_new_def finish_Inr by (simp add: check_empty not_le)
  have bgm: "(\<exists>p. BGMSeparationParams_new kb = Inr p) \<longleftrightarrow>
      supplied_ok (segment_size_kw kb) (\<lambda>n. 0 < n)"
    unfolding BGMSeparationParams_new_def finish_Inr by (simp add: check_empty not_le)
  have dia: "\<exists>p. DiarizationParams_new kd = Inr p"
    unfolding DiarizationParams_new_def finish_Inr by simp
  have vad_total: "(\<exists>p. VadParams_new kv = Inr p) \<or>
      (\<exists>es. es \<noteq> [] \<and> VadParams_new kv = Inl (ValidationError es))"
    unfolding VadParams_new_def by (rule finish_total)
  have whisper_total: "(\<exists>p. WhisperParams_new sentinel kw = Inr p) \<or>
      (\<exists>es. es \<noteq> [] \<and> WhisperParams_new sentinel kw = Inl (ValidationError es))"
    unfolding WhisperParams_new_def by (rule finish_total)
  have bgm_total: "(\<exists>p. BGMSeparationParams_new kb = Inr p) \<or>
      (\<exists>es. es \<noteq> [] \<and> BGMSeparationParams_new kb = Inl (ValidationError es))"
    unfolding BGMSeparationParams_new_def by (rule finish_total)
  from vad vad_total whisper whisper_total bgm bgm_total dia show ?thesis
    by (intro conjI)
qed

text \<open>
  C5 as stated, refuted: a model size outside the choices of the form is accepted by the
  constructor.
\<close>

theorem enum_membership_counterexample:
  "\<not> (\<forall>s. s \<notin> set [''small'', ''medium'', ''large-v2''] \<longrightarrow>
        (\<exists>e. WhisperParams_new ''Automatic Detection''
               (WhisperParams_no_kwargs\<lparr>model_size_kw := Some s\<rparr>) = Inl e))"
proof
  assume "\<forall>s. s \<notin> set [''small'', ''medium'', ''large-v2''] \<longrightarrow>
        (\<exists>e. WhisperParams_new ''Automatic Detection''
               (WhisperParams_no_kwargs\<lparr>model_size_kw := Some s\<rparr>) = Inl e)"
  then have "''tiny'' \<notin> set [''small'', ''medium'', ''large-v2''] \<longrightarrow>
        (\<exists>e. WhisperParams_new ''Automatic Detection''
               (WhisperParams_no_kwargs\<lparr>model_size_kw := Some ''tiny''\<rparr>) = Inl e)"
    by (rule spec)
  then show False
    by (simp add: WhisperParams_new_def WhisperParams_no_kwargs_def eval_new)
qed

text \<open>
  C5, amended. The records check no membership in a fixed set: \<open>model_size\<close> and
  \<open>compute_type\<close> of \<^verbatim>\<open>WhisperParams\<close> and \<open>model_size\<close> of
  \<^verbatim>\<open>BGMSeparationParams\<close> are plain strings, and constructing with any strings
  for them does what constructing without them does, with the strings stored: the same
  failure, or the same record but for these fields.
\<close>

theorem string_fields_unchecked:
  "WhisperParams_new sentinel (kw\<lparr>model_size_kw := Some s, compute_type_kw := Some c\<rparr>) =
     map_sum id (\<lambda>p. p\<lparr>model_size := s, compute_type := c\<rparr>) (WhisperParams_new sentinel kw) \<and>
   BGMSeparationParams_new (kb\<lparr>BGMSeparationParams_kwargs.model_size_kw := Some s\<rparr>) =
     map_sum id (\<lambda>p. p\<lparr>BGMSeparationParams.model_size := s\<rparr>) (BGMSeparationParams_new kb)"
  by (simp add: WhisperParams_new_def BGMSeparationParams_new_def finish_def supplied_or_def)

text \<open>
  C8. A constructed \<^verbatim>\<open>WhisperParams\<close> never has the sentinel of automatic detection
  as its \<open>lang\<close>: constructing with the sentinel gives \<open>lang = None\<close>, constructing
  with any other value, \<^verbatim>\<open>None\<close> included, keeps it, and leaving \<open>lang\<close> out gives
  the default \<^verbatim>\<open>None\<close>.
\<close>

theorem lang_never_sentinel:
  assumes "WhisperParams_new sentinel kw = Inr p"
  shows "lang p \<noteq> Some sentinel \<and>
         (lang_kw kw = Some (Some sentinel) \<longrightarrow> lang p = None) \<and>
         (\<forall>v. lang_kw kw = Some v \<and> v \<noteq> Some sentinel \<longrightarrow> lang p = v) \<and>
         (lang_kw kw = None \<longrightarrow> lang p = None)"
proof -
  from assms have "lang p = supplied_or (map_option (validate_lang sentinel) (lang_kw kw)) None"
    by (auto simp add: WhisperParams_new_def finish_def split: if_splits)
  then show ?thesis
    by (auto simp add: supplied_or_def validate_lang_def split: option.splits)
qed

theorem lang_never_sentinel_witness:
  "\<exists>p. WhisperParams_new ''Automatic Detection''
          (WhisperParams_no_kwargs\<lparr>lang_kw := Some (Some ''Automatic Detection'')\<rparr>) = Inr p \<and>
        lang p = None"
proof -
  obtain p where p: "WhisperParams_new ''Automatic Detection''
          (WhisperParams_no_kwargs\<lparr>lang_kw := Some (Some ''Automatic Detection'')\<rparr>) = Inr p"
    by (simp add: WhisperParams_new_def WhisperParams_no_kwargs_def eval_new)
  from lang_never_sentinel [OF p] have "lang p = None"
    by simp
  with p show ?thesis by blast
qed

section \<open>The aggregate\<close>

text \<open>
  C6. \<^verbatim>\<open>TranscriptionPipelineParams\<close> holds four records, \<open>whisper\<close>, \<open>vad\<close>,
  \<open>diarization\<close> and \<open>bgm_separation\<close>; constructed with no arguments, each is the
  default construction of its type; and \<^verbatim>\<open>to_dict\<close> has exactly these four keys, each
  with the \<^verbatim>\<open>to_dict\<close> of its record.
\<close>

theorem pipeline_aggregates_four_records:
  "(\<exists>w v d b.
      WhisperParams_new sentinel WhisperParams_no_kwargs = Inr w \<and>
      VadParams_new VadParams_no_kwargs = Inr v \<and>
      DiarizationParams_new DiarizationParams_no_kwargs = Inr d \<and>
      BGMSeparationParams_new BGMSeparationParams_no_kwargs = Inr b \<and>
      TranscriptionPipelineParams_new sentinel TranscriptionPipelineParams_no_kwargs =
        Inr \<lparr>whisper = w, vad = v, diarization = d, bgm_separation = b\<rparr>) \<and>
   map fst (TranscriptionPipelineParams_to_dict p) =
     [''whisper'', ''vad'', ''diarization'', ''bgm_separation''] \<and>
   map_of (TranscriptionPipelineParams_to_dict p) ''whisper'' =
     Some (WhisperParams_to_dict (whisper p)) \<and>
   map_of (TranscriptionPipelineParams_to_dict p) ''vad'' =
     Some (VadParams_to_dict (vad p)) \<and>
   map_of (TranscriptionPipelineParams_to_dict p) ''diarization'' =
     Some (DiarizationParams_to_dict (diarization p)) \<and>
   map_of (TranscriptionPipelineParams_to_dict p) ''bgm_separation'' =
     Some (BGMSeparationParams_to_dict (bgm_separation p))"
  by (simp add: TranscriptionPipelineParams_new_def TranscriptionPipelineParams_no_kwargs_def
        default_factory_def WhisperParams_default VadParams_default DiarizationParams_default
        BGMSeparationParams_default TranscriptionPipelineParams_to_dict_def)


section \<open>Rendering\<close>

text \<open>
  Every widget that shows a field takes its value from
  \<^verbatim>\<open>defaults.get("<field>", cls.<field>)\<close>. The fallback is an argument of
  \<^verbatim>\<open>get\<close>: it is evaluated before the dictionary is looked at, whether or not
  the dictionary has the key.
\<close>

lemmas eval_widgets = gr_def defaults_get_def getattr_def gettext_def choices_or_def Let_def

lemma value_expression_raises:
  "cls k = None \<Longrightarrow> defaults_get d k (getattr cls k) = Inl (AttributeError k)"
  by (simp add: defaults_get_def getattr_def)

lemma vad_raises:
  "cls ''vad_filter'' = None \<Longrightarrow>
     VadParams_to_gradio_inputs cls dopt = Inl (AttributeError ''vad_filter'')"
  by (simp add: VadParams_to_gradio_inputs_def eval_widgets)

lemma diarization_raises:
  "cls ''is_diarize'' = None \<Longrightarrow>
     DiarizationParams_to_gradio_inputs cls dopt devs dev = Inl (AttributeError ''is_diarize'')"
  by (simp add: DiarizationParams_to_gradio_inputs_def eval_widgets)

lemma bgm_raises:
  "cls ''is_separate_bgm'' = None \<Longrightarrow>
     BGMSeparationParams_to_gradio_input cls dopt devs dev models =
       Inl (AttributeError ''is_separate_bgm'')"
  by (simp add: BGMSeparationParams_to_gradio_input_def eval_widgets)

lemma whisper_raises:
  "cls ''model_size'' = None \<Longrightarrow> cls ''beam_size'' = None \<Longrightarrow>
     WhisperParams_to_gradio_inputs cls dopt oa wt act ct =
       Inl (AttributeError (if py_not oa then ''model_size'' else ''beam_size''))"
  by (simp add: WhisperParams_to_gradio_inputs_def whisper_basic_inputs_def
        whisper_advanced_inputs_def eval_widgets)

lemma model_class_no_field:
  "no_field_attribute (model_class ''VadParams'') VadParams_fields"
  "no_field_attribute (model_class ''DiarizationParams'') DiarizationParams_fields"
  "no_field_attribute (model_class ''BGMSeparationParams'') BGMSeparationParams_fields"
  "no_field_attribute (model_class ''WhisperParams'') WhisperParams_fields"
  by (simp_all add: no_field_attribute_def model_class_def VadParams_fields_def
        DiarizationParams_fields_def BGMSeparationParams_fields_def WhisperParams_fields_def)

lemma has_keys_full_dict: "has_keys (full_dict ks) ks"
proof -
  have "map_of (rev (map (\<lambda>k. (k, PBool True)) ks)) k \<noteq> None" if "k \<in> set ks" for k
    using that by (simp add: map_of_eq_None_iff image_iff)
  then show ?thesis
    by (simp add: has_keys_def full_dict_def dict_of_def list_all_iff)
qed

text \<open>
  C1. The claim has every form-rendering classmethod return one widget per declared
  field. On a class that answers to no field name, as the model classes of this module
  do, each of the four classmethods raises \<^verbatim>\<open>AttributeError\<close> at the fallback of its
  first widget, for every dictionary and all other arguments: no list of widgets is
  returned.
\<close>

theorem rendering_returns_no_widgets:
  "(no_field_attribute cls VadParams_fields \<longrightarrow>
      VadParams_to_gradio_inputs cls dopt = Inl (AttributeError ''vad_filter'')) \<and>
   (no_field_attribute cls DiarizationParams_fields \<longrightarrow>
      DiarizationParams_to_gradio_inputs cls dopt devs dev =
        Inl (AttributeError ''is_diarize'')) \<and>
   (no_field_attribute cls BGMSeparationParams_fields \<longrightarrow>
      BGMSeparationParams_to_gradio_input cls dopt devs dev models =
        Inl (AttributeError ''is_separate_bgm'')) \<and>
   (no_field_attribute cls WhisperParams_fields \<longrightarrow>
      WhisperParams_to_gradio_inputs cls dopt oa wt act ct =
        Inl (AttributeError (if py_not oa then ''model_size'' else ''beam_size'')))"
proof (intro conjI impI)
  assume "no_field_attribute cls VadParams_fields"
  then have "cls ''vad_filter'' = None"
    by (simp add: no_field_attribute_def VadParams_fields_def)
  then show "VadParams_to_gradio_inputs cls dopt = Inl (AttributeError ''vad_filter'')"
    by (rule vad_raises)
next
  assume "no_field_attribute cls DiarizationParams_fields"
  then have "cls ''is_diarize'' = None"
    by (simp add: no_field_attribute_def DiarizationParams_fields_def)
  then show "DiarizationParams_to_gradio_inputs cls dopt devs dev =
        Inl (AttributeError ''is_diarize'')"
    by (rule diarization_raises)
next
  assume "no_field_attribute cls BGMSeparationParams_fields"
  then have "cls ''is_separate_bgm'' = None"
    by (simp add: no_field_attribute_def BGMSeparationParams_fields_def)
  then show "BGMSeparationParams_to_gradio_input cls dopt devs dev models =
        Inl (AttributeError ''is_separate_bgm'')"
    by (rule bgm_raises)
next
  assume "no_field_attribute cls WhisperParams_fields"
  then have "cls ''model_size'' = None" and "cls ''beam_size'' = None"
    by (simp_all add: no_field_attribute_def WhisperParams_fields_def)
  then show "WhisperParams_to_gradio_inputs cls dopt oa wt act ct =
        Inl (AttributeError (if py_not oa then ''model_size'' else ''beam_size''))"
    by (rule whisper_raises)
qed

theorem rendering_returns_no_widgets_witness:
  "VadParams_to_gradio_inputs (model_class ''VadParams'') None =
     Inl (AttributeError ''vad_filter'') \<and>
   DiarizationParams_to_gradio_inputs (model_class ''DiarizationParams'') None None None =
     Inl (AttributeError ''is_diarize'') \<and>
   BGMSeparationParams_to_gradio_input (model_class ''BGMSeparationParams'')
     None None None None = Inl (AttributeError ''is_separate_bgm'') \<and>
   WhisperParams_to_gradio_inputs (model_class ''WhisperParams'')
     None (Some True) PNone None None = Inl (AttributeError ''beam_size'') \<and>
   WhisperParams_to_gradio_inputs (model_class ''WhisperParams'')
     None (Some False) PNone None None = Inl (AttributeError ''model_size'')"
  using model_class_no_field
    rendering_returns_no_widgets [where cls = "model_class ''VadParams''" and dopt = None]
    rendering_returns_no_widgets [where cls = "model_class ''DiarizationParams''"
      and dopt = None and devs = None and dev = None]
    rendering_returns_no_widgets [where cls = "model_class ''BGMSeparationParams''"
      and dopt = None and devs = None and dev = None and models = None]
    rendering_returns_no_widgets [where cls = "model_class ''WhisperParams''" and dopt = None
      and oa = "Some True" and wt = PNone and act = None and ct = None]
    rendering_returns_no_widgets [where cls = "model_class ''WhisperParams''" and dopt = None
      and oa = "Some False" and wt = PNone and act = None and ct = None]
  by (simp add: py_not_def)

text \<open>
  C2. The claim has the widget of a field show the entry of the dictionary when there is
  one, and the declared default otherwise. On a class that answers to no field name the
  value expression of a field raises \<^verbatim>\<open>AttributeError\<close> for every dictionary, with or
  without the key; and a dictionary that has an entry for every declared field gets no
  widget from any of the four classmethods.
\<close>

theorem supplied_entries_are_not_shown:
  "(cls f = None \<longrightarrow> defaults_get d f (getattr cls f) = Inl (AttributeError f)) \<and>
   (no_field_attribute cls VadParams_fields \<and> has_keys d VadParams_fields \<longrightarrow>
      (\<forall>ws. VadParams_to_gradio_inputs cls (Some d) \<noteq> Inr ws)) \<and>
   (no_field_attribute cls DiarizationParams_fields \<and> has_keys d DiarizationParams_fields \<longrightarrow>
      (\<forall>ws. DiarizationParams_to_gradio_inputs cls (Some d) devs dev \<noteq> Inr ws)) \<and>
   (no_field_attribute cls BGMSeparationParams_fields \<and>
    has_keys d BGMSeparationParams_fields \<longrightarrow>
      (\<forall>ws. BGMSeparationParams_to_gradio_input cls (Some d) devs dev models \<noteq> Inr ws)) \<and>
   (no_field_attribute cls WhisperParams_fields \<and> has_keys d WhisperParams_fields \<longrightarrow>
      (\<forall>ws. WhisperParams_to_gradio_inputs cls (Some d) oa wt act ct \<noteq> Inr ws))"
proof (intro conjI impI allI)
  assume "cls f = None"
  then show "defaults_get d f (getattr cls f) = Inl (AttributeError f)"
    by (rule value_expression_raises)
next
  fix ws
  assume "no_field_attribute cls VadParams_fields \<and> has_keys d VadParams_fields"
  then have "cls ''vad_filter'' = None"
    by (simp add: no_field_attribute_def VadParams_fields_def)
  then have "VadParams_to_gradio_inputs cls (Some d) = Inl (AttributeError ''vad_filter'')"
    by (rule vad_raises)
  then show "VadParams_to_gradio_inputs cls (Some d) \<noteq> Inr ws"
    by simp
next
  fix ws
  assume "no_field_attribute cls DiarizationParams_fields \<and>
    has_keys d DiarizationParams_fields"
  then have "cls ''is_diarize'' = None"
    by (simp add: no_field_attribute_def DiarizationParams_fields_def)
  then have "DiarizationParams_to_gradio_inputs cls (Some d) devs dev =
      Inl (AttributeError ''is_diarize'')"
    by (rule diarization_raises)
  then show "DiarizationParams_to_gradio_inputs cls (Some d) devs dev \<noteq> Inr ws"
    by simp
next
  fix ws
  assume "no_field_attribute cls BGMSeparationParams_fields \<and>
    has_keys d BGMSeparationParams_fields"
  then have "cls ''is_separate_bgm'' = None"
    by (simp add: no_field_attribute_def BGMSeparationParams_fields_def)
  then have "BGMSeparationParams_to_gradio_input cls (Some d) devs dev models =
      Inl (AttributeError ''is_separate_bgm'')"
    by (rule bgm_raises)
  then show "BGMSeparationParams_to_gradio_input cls (Some d) devs dev models \<noteq> Inr ws"
    by simp
next
  fix ws
  assume "no_field_attribute cls WhisperParams_fields \<and> has_keys d WhisperParams_fields"
  then have "cls ''model_size'' = None" and "cls ''beam_size'' = None"
    by (simp_all add: no_field_attribute_def WhisperParams_fields_def)
  then have "WhisperParams_to_gradio_inputs cls (Some d) oa wt act ct =
      Inl (AttributeError (if py_not oa then ''model_size'' else ''beam_size''))"
    by (rule whisper_raises)
  then show "WhisperParams_to_gradio_inputs cls (Some d) oa wt act ct \<noteq> Inr ws"
    by simp
qed

theorem supplied_entries_are_not_shown_witness:
  "full_dict VadParams_fields ''threshold'' = Some (PBool True) \<and>
   defaults_get (full_dict VadParams_fields) ''threshold''
     (getattr (model_class ''VadParams'') ''threshold'') =
     Inl (AttributeError ''threshold'') \<and>
   (\<forall>ws. VadParams_to_gradio_inputs (model_class ''VadParams'')
           (Some (full_dict VadParams_fields)) \<noteq> Inr ws) \<and>
   (\<forall>ws. DiarizationParams_to_gradio_inputs (model_class ''DiarizationParams'')
           (Some (full_dict DiarizationParams_fields)) None None \<noteq> Inr ws) \<and>
   (\<forall>ws. BGMSeparationParams_to_gradio_input (model_class ''BGMSeparationParams'')
           (Some (full_dict BGMSeparationParams_fields)) None None None \<noteq> Inr ws) \<and>
   (\<forall>ws. WhisperParams_to_gradio_inputs (model_class ''WhisperParams'')
           (Some (full_dict WhisperParams_fields)) (Some True) PNone None None \<noteq> Inr ws)"
proof -
  have t: "full_dict VadParams_fields ''threshold'' = Some (PBool True)"
    by (simp add: full_dict_def dict_of_def VadParams_fields_def)
  have n: "model_class ''VadParams'' ''threshold'' = None"
    by (simp add: model_class_def)
  note v = supplied_entries_are_not_shown [where cls = "model_class ''VadParams''"
      and d = "full_dict VadParams_fields" and f = "''threshold''" and devs = None
      and dev = None and models = None and oa = "Some True" and wt = PNone and act = None
      and ct = None]
  note i = supplied_entries_are_not_shown [where cls = "model_class ''DiarizationParams''"
      and d = "full_dict DiarizationParams_fields" and f = "''is_diarize''" and devs = None
      and dev = None and models = None and oa = "Some True" and wt = PNone and act = None
      and ct = None]
  note b = supplied_entries_are_not_shown [where cls = "model_class ''BGMSeparationParams''"
      and d = "full_dict BGMSeparationParams_fields" and f = "''segment_size''"
      and devs = None and dev = None and models = None and oa = "Some True" and wt = PNone
      and act = None and ct = None]
  note w = supplied_entries_are_not_shown [where cls = "model_class ''WhisperParams''"
      and d = "full_dict WhisperParams_fields" and f = "''beam_size''" and devs = None
      and dev = None and models = None and oa = "Some True" and wt = PNone and act = None
      and ct = None]
  have kv: "has_keys (full_dict VadParams_fields) VadParams_fields"
    and ki: "has_keys (full_dict DiarizationParams_fields) DiarizationParams_fields"
    and kb: "has_keys (full_dict BGMSeparationParams_fields) BGMSeparationParams_fields"
    and kw: "has_keys (full_dict WhisperParams_fields) WhisperParams_fields"
    by (rule has_keys_full_dict)+
  from v n model_class_no_field(1) kv
  have 1: "defaults_get (full_dict VadParams_fields) ''threshold''
     (getattr (model_class ''VadParams'') ''threshold'') =
     Inl (AttributeError ''threshold'')"
    and 2: "\<forall>ws. VadParams_to_gradio_inputs (model_class ''VadParams'')
           (Some (full_dict VadParams_fields)) \<noteq> Inr ws"
    by blast+
  from i model_class_no_field(2) ki
  have 3: "\<forall>ws. DiarizationParams_to_gradio_inputs (model_class ''DiarizationParams'')
           (Some (full_dict DiarizationParams_fields)) None None \<noteq> Inr ws"
    by blast
  from b model_class_no_field(3) kb
  have 4: "\<forall>ws. BGMSeparationParams_to_gradio_input (model_class ''BGMSeparationParams'')
           (Some (full_dict BGMSeparationParams_fields)) None None None \<noteq> Inr ws"
    by blast
  from w model_class_no_field(4) kw
  have 5: "\<forall>ws. WhisperParams_to_gradio_inputs (model_class ''WhisperParams'')
           (Some (full_dict WhisperParams_fields)) (Some True) PNone None None \<noteq> Inr ws"
    by blast
  from t 1 2 3 4 5 show ?thesis
    by (intro conjI)
qed



end
